theory Spec2Isabelle
  imports Complex_Main "HOL-Library.Signed_Division"
begin

section \<open>Single-precision values\<close>

text \<open>
  The C++ type \<open>float\<close> is modelled by its values: a finite number, the two
  infinities, or NaN. The operations follow IEEE 754 on the special values
  (a comparison with NaN is false, \<open>x / 0\<close> is an infinity or NaN, \<open>0 * Inf\<close> and
  \<open>Inf - Inf\<close> are NaN). On finite operands the arithmetic is the exact one of
  the reals: rounding to 24 significant bits and overflow to infinity are not
  modelled, and the two zeros are not distinguished (a zero divisor acts as \<open>+0\<close>,
  which is the zero that \<open>sqrt\<close> and \<open>2 * M_PI * rs\<close> deliver).
\<close>

datatype float = Fin real | PInf | NInf | NaN

fun is_finite :: "float \<Rightarrow> bool" where
  "is_finite (Fin a) = True"
| "is_finite PInf = False"
| "is_finite NInf = False"
| "is_finite NaN = False"

text \<open>Unary minus.\<close>

fun fneg :: "float \<Rightarrow> float" where
  "fneg (Fin a) = Fin (- a)"
| "fneg PInf = NInf"
| "fneg NInf = PInf"
| "fneg NaN = NaN"

text \<open>Binary \<open>+\<close> and \<open>-\<close>.\<close>

fun fadd :: "float \<Rightarrow> float \<Rightarrow> float" where
  "fadd (Fin a) (Fin b) = Fin (a + b)"
| "fadd (Fin a) PInf = PInf"
| "fadd (Fin a) NInf = NInf"
| "fadd PInf (Fin b) = PInf"
| "fadd NInf (Fin b) = NInf"
| "fadd PInf PInf = PInf"
| "fadd NInf NInf = NInf"
| "fadd PInf NInf = NaN"
| "fadd NInf PInf = NaN"
| "fadd NaN y = NaN"
| "fadd x NaN = NaN"

definition fsub :: "float \<Rightarrow> float \<Rightarrow> float" where
  "fsub x y = fadd x (fneg y)"

text \<open>Binary \<open>*\<close>.\<close>

fun fmul :: "float \<Rightarrow> float \<Rightarrow> float" where
  "fmul (Fin a) (Fin b) = Fin (a * b)"
| "fmul (Fin a) PInf = (if a = 0 then NaN else if 0 < a then PInf else NInf)"
| "fmul (Fin a) NInf = (if a = 0 then NaN else if 0 < a then NInf else PInf)"
| "fmul PInf (Fin b) = (if b = 0 then NaN else if 0 < b then PInf else NInf)"
| "fmul NInf (Fin b) = (if b = 0 then NaN else if 0 < b then NInf else PInf)"
| "fmul PInf PInf = PInf"
| "fmul NInf NInf = PInf"
| "fmul PInf NInf = NInf"
| "fmul NInf PInf = NInf"
| "fmul NaN y = NaN"
| "fmul x NaN = NaN"

text \<open>Binary \<open>/\<close>. Nothing traps: a zero divisor gives an infinity, or NaN for \<open>0 / 0\<close>.\<close>

fun fdiv :: "float \<Rightarrow> float \<Rightarrow> float" where
  "fdiv (Fin a) (Fin b) =
     (if b = 0 then (if a = 0 then NaN else if 0 < a then PInf else NInf)
      else Fin (a / b))"
| "fdiv (Fin a) PInf = Fin 0"
| "fdiv (Fin a) NInf = Fin 0"
| "fdiv PInf (Fin b) = (if 0 \<le> b then PInf else NInf)"
| "fdiv NInf (Fin b) = (if 0 \<le> b then NInf else PInf)"
| "fdiv PInf PInf = NaN"
| "fdiv NInf NInf = NaN"
| "fdiv PInf NInf = NaN"
| "fdiv NInf PInf = NaN"
| "fdiv NaN y = NaN"
| "fdiv x NaN = NaN"

text \<open>The comparisons \<open><\<close>, \<open>>\<close> and \<open><=\<close>: false as soon as one side is NaN.\<close>

fun flt :: "float \<Rightarrow> float \<Rightarrow> bool" where
  "flt (Fin a) (Fin b) = (a < b)"
| "flt (Fin a) PInf = True"
| "flt NInf (Fin b) = True"
| "flt NInf PInf = True"
| "flt x y = False"

definition fgt :: "float \<Rightarrow> float \<Rightarrow> bool" where
  "fgt x y = flt y x"


text \<open>\<open>std::min(a, b)\<close> is \<open>(b < a) ? b : a\<close>.\<close>

definition fmin :: "float \<Rightarrow> float \<Rightarrow> float" where
  "fmin a b = (if flt b a then b else a)"

text \<open>\<open>sqrt\<close>, and \<open>pow(x, 2)\<close> as the product of \<open>x\<close> with itself.\<close>

fun fsqrt :: "float \<Rightarrow> float" where
  "fsqrt (Fin a) = (if a < 0 then NaN else Fin (sqrt a))"
| "fsqrt PInf = PInf"
| "fsqrt NInf = NaN"
| "fsqrt NaN = NaN"

definition fpow2 :: "float \<Rightarrow> float" where
  "fpow2 x = fmul x x"

text \<open>Conversion of an integer count to \<open>float\<close>.\<close>

definition float_of_int :: "int \<Rightarrow> float" where
  "float_of_int n = Fin (of_int n)"

text \<open>\<open>std::numeric_limits<float>::max()\<close>; \<open>lowest()\<close> is its negation.\<close>

definition FLT_MAX :: real where
  "FLT_MAX = (2 ^ 24 - 1) * 2 ^ 104"

section \<open>Data\<close>

text \<open>
  Modelled from the spec: the structs are declared in the header \<open>control.hpp\<close>, which
  is not part of the sources at hand. Their fields are the ones that \<open>control.cpp\<close>
  reads and writes, and the spec gives each of them as a scalar.
\<close>

record robot_velocities =
  linear_velocity :: float
  angular_velocity :: float

record motor_data =
  fl :: float
  fr :: float
  rl :: float
  rr :: float

record robot_geometry =
  wheel_base :: float
  intra_axle_distance :: float
  wheel_radius :: float

record pid_gains =
  kp :: float
  ki :: float
  kd :: float

record pid_output_limits =
  posmax :: float
  negmax :: float

text \<open>
  The diagnostic record that \<open>runControl\<close> returns. Its gain snapshot has the
  fields \<open>kp\<close>, \<open>ki\<close>, \<open>kd\<close> in the source; they are \<open>out_kp\<close>, \<open>out_ki\<close>,
  \<open>out_kd\<close> here, to keep them apart from the fields of \<open>pid_gains\<close>.
\<close>

record pid_outputs =
  pid_output :: float
  dt :: float
  error :: float
  integral_error :: float
  target_value :: float
  measured_value :: float
  out_kp :: float
  out_ki :: float
  out_kd :: float

text \<open>
  The private members of the two classes: a member \<open>x_\<close> of the source is the field
  \<open>x_m\<close>. \<open>time_last_m\<close> is a count of milliseconds since the epoch.
\<close>

record PidController =
  kp_m :: float
  ki_m :: float
  kd_m :: float
  integral_error_m :: float
  integral_error_limit_m :: float
  pos_max_output_m :: float
  neg_max_output_m :: float
  time_last_m :: int

text \<open>
  Modelled from the spec: the enumeration \<open>robot_motion_mode_t\<close> is declared in a header
  that is not part of the sources at hand; the spec names two modes.
\<close>

datatype robot_motion_mode_t = OPEN_LOOP | CLOSED_LOOP

record SkidRobotMotionController =
  operating_mode_m :: robot_motion_mode_t
  robot_geometry_m :: robot_geometry
  pid_gains_m :: pid_gains
  max_motor_duty_m :: float
  traction_control_gain_m :: float
  lpf_alpha_m :: float
  max_linear_acceleration_m :: float
  max_angular_acceleration_m :: float

section \<open>Kinematic functions\<close>

text \<open>
  \<open>computeVelocitiesFromWheelspeeds\<close> (the spec's \<open>estimateVelocity\<close>). The macro
  \<open>RPM_TO_RADS_SEC\<close> comes from a header that is not part of the sources at hand, so
  it is the first argument here. The function has one exit, which returns the struct.
\<close>

definition computeVelocitiesFromWheelspeeds ::
    "float \<Rightarrow> motor_data \<Rightarrow> robot_geometry \<Rightarrow> robot_velocities" where
  "computeVelocitiesFromWheelspeeds RPM_TO_RADS_SEC wheel_speeds geom =
     (let rs = fsqrt (fadd (fpow2 (fmul (Fin (1/2)) (wheel_base geom)))
                           (fpow2 (fmul (Fin (1/2)) (intra_axle_distance geom))));
          cs = fmul (fmul (Fin 2) (Fin pi)) rs;
          left_travel_rate =
            fmul (fmul (fmin (fl wheel_speeds) (rl wheel_speeds)) RPM_TO_RADS_SEC)
                 (wheel_radius geom);
          right_travel_rate =
            fmul (fmul (fmin (fr wheel_speeds) (rr wheel_speeds)) RPM_TO_RADS_SEC)
                 (wheel_radius geom);
          travel_differential = fsub right_travel_rate left_travel_rate;
          linear_velocity = fmin left_travel_rate right_travel_rate;
          angular_velocity = fdiv travel_differential cs
      in \<lparr>linear_velocity = linear_velocity, angular_velocity = angular_velocity\<rparr>)"

text \<open>
  \<open>limitAcceleration\<close>: two divisions by \<open>dt\<close>, four clipping tests in the order of
  the source, one exit.
\<close>

definition limitAcceleration ::
    "robot_velocities \<Rightarrow> robot_velocities \<Rightarrow> robot_velocities \<Rightarrow> float \<Rightarrow> robot_velocities"
  where
  "limitAcceleration target_velocities measured_velocities delta_v_limits dt_s =
     (let linear_acceleration =
            fdiv (fsub (linear_velocity target_velocities)
                       (linear_velocity measured_velocities)) dt_s;
          angular_acceleration =
            fdiv (fsub (angular_velocity target_velocities)
                       (angular_velocity measured_velocities)) dt_s;
          linear_acceleration =
            (if fgt linear_acceleration (linear_velocity delta_v_limits)
             then linear_velocity delta_v_limits else linear_acceleration);
          linear_acceleration =
            (if flt linear_acceleration (fneg (linear_velocity delta_v_limits))
             then fneg (linear_velocity delta_v_limits) else linear_acceleration);
          angular_acceleration =
            (if fgt angular_acceleration (angular_velocity delta_v_limits)
             then angular_velocity delta_v_limits else angular_acceleration);
          angular_acceleration =
            (if flt angular_acceleration (fneg (angular_velocity delta_v_limits))
             then fneg (angular_velocity delta_v_limits) else angular_acceleration)
      in \<lparr>linear_velocity =
            fadd (linear_velocity measured_velocities) (fmul linear_acceleration dt_s),
          angular_velocity =
            fadd (angular_velocity measured_velocities) (fmul angular_acceleration dt_s)\<rparr>)"

section \<open>The PID controller\<close>

text \<open>
  The constructors and \<open>runControl\<close> read the system clock; the reading, in whole
  milliseconds since the epoch, is the argument \<open>time_now\<close>. The counts stay far
  below \<open>2^63\<close>, so they are integers without a width.
\<close>

definition PidController_ctor :: "pid_gains \<Rightarrow> int \<Rightarrow> PidController" where
  "PidController_ctor gains time_now =
     \<lparr>kp_m = kp gains, ki_m = ki gains, kd_m = kd gains,
      integral_error_m = Fin 0,
      integral_error_limit_m = Fin FLT_MAX,
      pos_max_output_m = Fin FLT_MAX,
      neg_max_output_m = Fin (- FLT_MAX),
      time_last_m = time_now\<rparr>"

definition PidController_ctor_limits ::
    "pid_gains \<Rightarrow> pid_output_limits \<Rightarrow> int \<Rightarrow> PidController" where
  "PidController_ctor_limits gains limits time_now =
     \<lparr>kp_m = kp gains, ki_m = ki gains, kd_m = kd gains,
      integral_error_m = Fin 0,
      integral_error_limit_m = Fin FLT_MAX,
      pos_max_output_m = posmax limits,
      neg_max_output_m = negmax limits,
      time_last_m = time_now\<rparr>"

definition setGains :: "PidController \<Rightarrow> pid_gains \<Rightarrow> PidController" where
  "setGains c gains = c\<lparr>kp_m := kp gains, kd_m := kd gains, ki_m := ki gains\<rparr>"

definition getGains :: "PidController \<Rightarrow> pid_gains" where
  "getGains c = \<lparr>kp = kp_m c, ki = ki_m c, kd = kd_m c\<rparr>"

definition setOutputLimits :: "PidController \<Rightarrow> pid_output_limits \<Rightarrow> PidController" where
  "setOutputLimits c limits =
     c\<lparr>pos_max_output_m := posmax limits, neg_max_output_m := negmax limits\<rparr>"

definition getOutputLimits :: "PidController \<Rightarrow> pid_output_limits" where
  "getOutputLimits c = \<lparr>posmax = pos_max_output_m c, negmax = neg_max_output_m c\<rparr>"

definition setIntegralErrorLimit :: "PidController \<Rightarrow> float \<Rightarrow> PidController" where
  "setIntegralErrorLimit c error_limit = c\<lparr>integral_error_limit_m := error_limit\<rparr>"

definition getIntegralErrorLimit :: "PidController \<Rightarrow> float" where
  "getIntegralErrorLimit c = integral_error_limit_m c"

text \<open>
  \<open>runControl\<close> returns the diagnostic record together with the controller after the
  call. \<open>(time_now - time_last_).count() / 1000\<close> divides two integers, so the
  quotient is truncated towards zero before it becomes a \<open>float\<close>.
\<close>

definition runControl ::
    "PidController \<Rightarrow> int \<Rightarrow> float \<Rightarrow> float \<Rightarrow> pid_outputs \<times> PidController" where
  "runControl c time_now target measured =
     (let delta_time = float_of_int ((time_now - time_last_m c) sdiv 1000);
          err = fsub target measured;
          integral = fadd (integral_error_m c) err;
          integral =
            (if fgt integral (integral_error_limit_m c)
             then integral_error_limit_m c else integral);
          integral =
            (if flt integral (fneg (integral_error_limit_m c))
             then fneg (integral_error_limit_m c) else integral);
          p = fmul err (kp_m c);
          i = fmul integral (ki_m c);
          d = fmul delta_time (kd_m c);
          output = fadd (fadd p i) d;
          output = (if fgt output (pos_max_output_m c) then pos_max_output_m c else output);
          output = (if flt output (neg_max_output_m c) then neg_max_output_m c else output)
      in (\<lparr>pid_output = output, dt = delta_time, error = err,
           integral_error = integral, target_value = target, measured_value = measured,
           out_kp = kp_m c, out_ki = ki_m c, out_kd = kd_m c\<rparr>,
          c\<lparr>time_last_m := time_now, integral_error_m := integral\<rparr>))"


section \<open>The motion controller\<close>

text \<open>
  The default constructor initialises three members; the others keep whatever the
  object's storage held, which is the argument \<open>storage\<close>.
\<close>

definition SkidRobotMotionController_default ::
    "SkidRobotMotionController \<Rightarrow> SkidRobotMotionController" where
  "SkidRobotMotionController_default storage =
     storage\<lparr>operating_mode_m := OPEN_LOOP, traction_control_gain_m := Fin 1,
             max_motor_duty_m := Fin 100\<rparr>"

definition SkidRobotMotionController_ctor ::
    "robot_motion_mode_t \<Rightarrow> robot_geometry \<Rightarrow> pid_gains \<Rightarrow> float
       \<Rightarrow> SkidRobotMotionController" where
  "SkidRobotMotionController_ctor operating_mode geom gains max_motor_duty =
     \<lparr>operating_mode_m = operating_mode,
      robot_geometry_m = geom,
      pid_gains_m = gains,
      max_motor_duty_m = max_motor_duty,
      traction_control_gain_m = Fin 1,
      lpf_alpha_m = Fin 1,
      max_linear_acceleration_m = Fin FLT_MAX,
      max_angular_acceleration_m = Fin FLT_MAX\<rparr>"

definition setRobotGeometry ::
    "SkidRobotMotionController \<Rightarrow> robot_geometry \<Rightarrow> SkidRobotMotionController" where
  "setRobotGeometry c geom = c\<lparr>robot_geometry_m := geom\<rparr>"

definition getRobotGeometry :: "SkidRobotMotionController \<Rightarrow> robot_geometry" where
  "getRobotGeometry c = robot_geometry_m c"

definition setMotorMaxDuty :: "SkidRobotMotionController \<Rightarrow> float \<Rightarrow> SkidRobotMotionController"
  where
  "setMotorMaxDuty c max_motor_duty = c\<lparr>max_motor_duty_m := max_motor_duty\<rparr>"

definition getMotorMaxDuty :: "SkidRobotMotionController \<Rightarrow> float" where
  "getMotorMaxDuty c = max_motor_duty_m c"

text \<open>
  \<open>runMotionControl\<close> estimates the measured velocities and then reaches the closing
  brace of its body: there is no \<open>return\<close> statement, so the call yields no
  \<open>motor_data\<close> value (in C++ the behaviour is undefined). The result is an option,
  and \<open>None\<close> stands for the missing value.
\<close>

definition runMotionControl ::
    "float \<Rightarrow> SkidRobotMotionController \<Rightarrow> robot_velocities \<Rightarrow> motor_data \<Rightarrow> motor_data
       \<Rightarrow> motor_data option" where
  "runMotionControl RPM_TO_RADS_SEC c velocity_targets current_duty_cycles current_motor_speeds =
     (let measured_velocities =
            computeVelocitiesFromWheelspeeds RPM_TO_RADS_SEC current_motor_speeds
              (robot_geometry_m c)
      in None)"

section \<open>Names for the intermediate values\<close>

text \<open>
  The source clips a value with two tests in sequence, the upper bound first:
  \<open>if (x > upper) x = upper; if (x < lower) x = lower;\<close>. The same idiom occurs
  six times, and \<open>clip\<close> names it, so that the properties below can speak of the
  accumulator after clipping and of the sum \<open>p + i + d\<close> before clipping.
\<close>

definition clip :: "float \<Rightarrow> float \<Rightarrow> float \<Rightarrow> float" where
  "clip x upper lower =
     (let y = (if fgt x upper then upper else x) in if flt y lower then lower else y)"

definition accumulated_error :: "PidController \<Rightarrow> float \<Rightarrow> float \<Rightarrow> float" where
  "accumulated_error c target measured =
     clip (fadd (integral_error_m c) (fsub target measured))
          (integral_error_limit_m c) (fneg (integral_error_limit_m c))"

definition unclipped_output :: "PidController \<Rightarrow> int \<Rightarrow> float \<Rightarrow> float \<Rightarrow> float" where
  "unclipped_output c time_now target measured =
     fadd (fadd (fmul (fsub target measured) (kp_m c))
                (fmul (accumulated_error c target measured) (ki_m c)))
          (fmul (float_of_int ((time_now - time_last_m c) sdiv 1000)) (kd_m c))"

section \<open>The output as the spec words it\<close>

text \<open>
  The spec's formula for the output of one call, written from its words and not from
  the code: the error is \<open>target - measured\<close>, the accumulator is clamped to plus and
  minus the integral limit, \<open>p = error * kp\<close>, \<open>i = ki\<close> times the accumulator,
  \<open>d = dt * kd\<close> with \<open>dt\<close> the time since the previous call in seconds, and the sum
  is clamped to \<open>[negmax, posmax]\<close>. The elapsed time is the difference of the two
  clock readings, which are in milliseconds.
\<close>

definition spec_clamp :: "float \<Rightarrow> float \<Rightarrow> float \<Rightarrow> float" where
  "spec_clamp lower upper x = (if flt x lower then lower else if fgt x upper then upper else x)"

definition spec_pid_output :: "PidController \<Rightarrow> int \<Rightarrow> float \<Rightarrow> float \<Rightarrow> float" where
  "spec_pid_output c time_now target measured =
     (let dt_seconds = Fin (real_of_int (time_now - time_last_m c) / 1000);
          err = fsub target measured;
          accumulator = spec_clamp (fneg (integral_error_limit_m c)) (integral_error_limit_m c)
                          (fadd (integral_error_m c) err);
          p = fmul err (kp_m c);
          i = fmul (ki_m c) accumulator;
          d = fmul dt_seconds (kd_m c)
      in spec_clamp (neg_max_output_m c) (pos_max_output_m c) (fadd (fadd p i) d))"

section \<open>Facts about the arithmetic\<close>

lemma fdiv_zero_not_finite: "\<not> is_finite (fdiv x (Fin 0))"
  by (cases x) simp_all


lemma fmul_commute: "fmul x y = fmul y x"
  by (cases x; cases y) (simp_all add: mult.commute)



lemma clip_eq_spec_clamp:
  assumes "\<not> flt upper lower"
  shows "clip x upper lower = spec_clamp lower upper x"
  using assms
  by (cases x; cases upper; cases lower) (auto simp: clip_def spec_clamp_def fgt_def Let_def)



lemma sdiv_1000_dvd: "1000 dvd (x::int) \<Longrightarrow> real_of_int (x sdiv 1000) = real_of_int x / 1000"
proof -
  assume d: "1000 dvd x"
  then have "x sdiv 1000 = x div 1000"
    by (simp add: signed_divide_int_eq_divide_int)
  moreover have "real_of_int (x div 1000) = real_of_int x / 1000"
    using d by (simp add: real_of_int_div)
  ultimately show ?thesis by simp
qed

section \<open>The result of one call, by parts\<close>

lemma runControl_pid_output:
  "pid_output (fst (runControl c time_now target measured)) =
     clip (unclipped_output c time_now target measured) (pos_max_output_m c) (neg_max_output_m c)"
  by (simp add: runControl_def unclipped_output_def accumulated_error_def clip_def Let_def)




section \<open>The motion control cycle\<close>

text \<open>
  C1. The claim is that \<open>runMotionControl\<close> returns four duty values, each within
  \<open>[-max_motor_duty, +max_motor_duty]\<close>. The body stops after the velocity estimate:
  whatever the controller, the targets, the duty cycles and the wheel speeds are, the
  call produces no \<open>motor_data\<close> value at all, so there is nothing to be within the
  bounds.
\<close>

theorem runMotionControl_yields_no_value:
  "runMotionControl RPM_TO_RADS_SEC c velocity_targets current_duty_cycles current_motor_speeds
     = None"
  by (simp add: runMotionControl_def)

section \<open>Degenerate geometry\<close>

text \<open>
  C2, as amended. The claim is that a zero stance radius is caught and reported, and that
  no NaN or Inf is returned. The function has no test on the circumference and no way
  to report anything. What holds instead: when \<open>wheel_base\<close> and
  \<open>intra_axle_distance\<close> are both zero, the angular velocity is the travel differential
  divided by zero, which is never a finite number, for every wheel-speed input.
\<close>

theorem computeVelocities_degenerate_geometry:
  assumes "wheel_base geom = Fin 0" and "intra_axle_distance geom = Fin 0"
  shows "angular_velocity (computeVelocitiesFromWheelspeeds RPM_TO_RADS_SEC wheel_speeds geom) =
           fdiv (fsub (fmul (fmul (fmin (fr wheel_speeds) (rr wheel_speeds)) RPM_TO_RADS_SEC)
                            (wheel_radius geom))
                      (fmul (fmul (fmin (fl wheel_speeds) (rl wheel_speeds)) RPM_TO_RADS_SEC)
                            (wheel_radius geom)))
                (Fin 0)
         \<and> \<not> is_finite
               (angular_velocity (computeVelocitiesFromWheelspeeds RPM_TO_RADS_SEC wheel_speeds geom))"
proof -
  have "angular_velocity (computeVelocitiesFromWheelspeeds RPM_TO_RADS_SEC wheel_speeds geom) =
           fdiv (fsub (fmul (fmul (fmin (fr wheel_speeds) (rr wheel_speeds)) RPM_TO_RADS_SEC)
                            (wheel_radius geom))
                      (fmul (fmul (fmin (fl wheel_speeds) (rl wheel_speeds)) RPM_TO_RADS_SEC)
                            (wheel_radius geom)))
                (Fin 0)"
    using assms by (simp add: computeVelocitiesFromWheelspeeds_def Let_def fpow2_def)
  then show ?thesis
    by (simp add: fdiv_zero_not_finite)
qed

text \<open>The amended statement at a robot that turns on the spot of a zero footprint.\<close>

theorem computeVelocities_degenerate_geometry_witness:
  "wheel_base \<lparr>wheel_base = Fin 0, intra_axle_distance = Fin 0, wheel_radius = Fin (1/10)\<rparr>
     = Fin 0
   \<and> intra_axle_distance
       \<lparr>wheel_base = Fin 0, intra_axle_distance = Fin 0, wheel_radius = Fin (1/10)\<rparr> = Fin 0
   \<and> angular_velocity
       (computeVelocitiesFromWheelspeeds (Fin (1/10))
          \<lparr>fl = Fin 1, fr = Fin 2, rl = Fin 1, rr = Fin 2\<rparr>
          \<lparr>wheel_base = Fin 0, intra_axle_distance = Fin 0, wheel_radius = Fin (1/10)\<rparr>)
       = PInf"
  using computeVelocities_degenerate_geometry
          [of "\<lparr>wheel_base = Fin 0, intra_axle_distance = Fin 0, wheel_radius = Fin (1/10)\<rparr>"
              "Fin (1/10)" "\<lparr>fl = Fin 1, fr = Fin 2, rl = Fin 1, rr = Fin 2\<rparr>"]
  by (simp add: fmin_def fsub_def)

text \<open>
  The claim itself fails: with all four wheels at the same speed the differential is
  zero, and the function returns a velocity record whose angular component is NaN.
\<close>

theorem computeVelocities_degenerate_counterexample:
  "computeVelocitiesFromWheelspeeds (Fin (1/10))
      \<lparr>fl = Fin 10, fr = Fin 10, rl = Fin 10, rr = Fin 10\<rparr>
      \<lparr>wheel_base = Fin 0, intra_axle_distance = Fin 0, wheel_radius = Fin (1/10)\<rparr>
   = \<lparr>linear_velocity = Fin (1/10), angular_velocity = NaN\<rparr>"
  by (simp add: computeVelocitiesFromWheelspeeds_def Let_def fmin_def fsub_def fpow2_def)

section \<open>A zero time step\<close>

text \<open>
  C3, as amended. The claim is that \<open>limitAcceleration\<close> with \<open>dt = 0\<close> returns the
  measured velocities unchanged or fails, and never returns Inf or NaN. The function
  has no test on \<open>dt\<close> and no way to fail. What holds instead, for finite targets,
  measurements and limits: each axis goes its own way; where the target differs from
  the measurement the quotient is an infinity, the clipping replaces it by the finite
  limit, and the axis comes back unchanged; where the target equals the measurement
  the quotient is \<open>0 / 0\<close> and the axis comes back as NaN.
\<close>

theorem limitAcceleration_zero_dt:
  "limitAcceleration
     \<lparr>linear_velocity = Fin t_lin, angular_velocity = Fin t_ang\<rparr>
     \<lparr>linear_velocity = Fin m_lin, angular_velocity = Fin m_ang\<rparr>
     \<lparr>linear_velocity = Fin l_lin, angular_velocity = Fin l_ang\<rparr> (Fin 0)
   = \<lparr>linear_velocity = (if t_lin = m_lin then NaN else Fin m_lin),
      angular_velocity = (if t_ang = m_ang then NaN else Fin m_ang)\<rparr>"
  by (simp add: limitAcceleration_def Let_def fsub_def fgt_def)

text \<open>A jump of the linear target from 0 to 5 while the angular target is met.\<close>

theorem limitAcceleration_zero_dt_witness:
  "limitAcceleration
     \<lparr>linear_velocity = Fin 5, angular_velocity = Fin 0\<rparr>
     \<lparr>linear_velocity = Fin 0, angular_velocity = Fin 0\<rparr>
     \<lparr>linear_velocity = Fin (1/2), angular_velocity = Fin (1/5)\<rparr> (Fin 0)
   = \<lparr>linear_velocity = Fin 0, angular_velocity = NaN\<rparr>"
  using limitAcceleration_zero_dt [of 5 0 0 0 "1/2" "1/5"] by simp

text \<open>
  The claim itself fails: a robot that already moves at its target velocity gets NaN
  on both axes, not its measured velocity.
\<close>

theorem limitAcceleration_zero_dt_counterexample:
  "limitAcceleration
     \<lparr>linear_velocity = Fin 1, angular_velocity = Fin 1\<rparr>
     \<lparr>linear_velocity = Fin 1, angular_velocity = Fin 1\<rparr>
     \<lparr>linear_velocity = Fin (1/2), angular_velocity = Fin (1/5)\<rparr> (Fin 0)
   = \<lparr>linear_velocity = NaN, angular_velocity = NaN\<rparr>"
  by (simp add: limitAcceleration_def Let_def fsub_def fgt_def)

section \<open>Configuration\<close>

text \<open>
  C9, as amended. The claim is that non-positive geometry dimensions and output limits
  with \<open>posmax < negmax\<close> are rejected with an error when they are configured. Neither
  class has a test or an error result. What holds instead: the constructor and
  \<open>setRobotGeometry\<close> store the geometry they are given, \<open>setOutputLimits\<close> stores the
  limits it is given, the getters hand back exactly these values, and the next call of
  \<open>runControl\<close> clips its sum with the stored limits as they are.
\<close>

theorem configuration_stored_unchecked:
  "getRobotGeometry (setRobotGeometry c geom) = geom
   \<and> getRobotGeometry (SkidRobotMotionController_ctor operating_mode geom gains max_motor_duty)
       = geom
   \<and> getOutputLimits (setOutputLimits p limits) = limits
   \<and> pid_output (fst (runControl (setOutputLimits p limits) time_now target measured))
       = clip (unclipped_output p time_now target measured) (posmax limits) (negmax limits)"
  by (simp add: getRobotGeometry_def setRobotGeometry_def SkidRobotMotionController_ctor_def
        getOutputLimits_def setOutputLimits_def runControl_pid_output unclipped_output_def
        accumulated_error_def)

text \<open>
  The claim itself fails: a geometry of zeros passes the constructor, a negative wheel
  base passes the setter, limits with \<open>posmax = -1 < 1 = negmax\<close> pass
  \<open>setOutputLimits\<close>, and the next control call works with them: its output is 1,
  above \<open>posmax\<close>.
\<close>

theorem configuration_counterexample:
  "getRobotGeometry
     (SkidRobotMotionController_ctor OPEN_LOOP
        \<lparr>wheel_base = Fin 0, intra_axle_distance = Fin 0, wheel_radius = Fin 0\<rparr>
        \<lparr>kp = Fin 1, ki = Fin 0, kd = Fin 0\<rparr> (Fin 100))
     = \<lparr>wheel_base = Fin 0, intra_axle_distance = Fin 0, wheel_radius = Fin 0\<rparr>
   \<and> getRobotGeometry
       (setRobotGeometry
          (SkidRobotMotionController_ctor OPEN_LOOP
             \<lparr>wheel_base = Fin (1/2), intra_axle_distance = Fin (2/5), wheel_radius = Fin (1/10)\<rparr>
             \<lparr>kp = Fin 1, ki = Fin 0, kd = Fin 0\<rparr> (Fin 100))
          \<lparr>wheel_base = Fin (- 1), intra_axle_distance = Fin 0, wheel_radius = Fin 0\<rparr>)
     = \<lparr>wheel_base = Fin (- 1), intra_axle_distance = Fin 0, wheel_radius = Fin 0\<rparr>
   \<and> getOutputLimits
       (setOutputLimits (PidController_ctor \<lparr>kp = Fin 1, ki = Fin 0, kd = Fin 0\<rparr> 0)
          \<lparr>posmax = Fin (- 1), negmax = Fin 1\<rparr>)
     = \<lparr>posmax = Fin (- 1), negmax = Fin 1\<rparr>
   \<and> pid_output (fst (runControl
       (setOutputLimits (PidController_ctor \<lparr>kp = Fin 1, ki = Fin 0, kd = Fin 0\<rparr> 0)
          \<lparr>posmax = Fin (- 1), negmax = Fin 1\<rparr>) 20 (Fin 0) (Fin 0)))
     = Fin 1"
  by (simp add: getRobotGeometry_def setRobotGeometry_def SkidRobotMotionController_ctor_def
        getOutputLimits_def setOutputLimits_def PidController_ctor_def runControl_def Let_def
        fsub_def fgt_def float_of_int_def FLT_MAX_def)

section \<open>The elapsed time of a call\<close>

text \<open>
  The code and the spec's formula give the same output whenever the time since the
  previous call is a whole number of seconds (and neither pair of bounds is crossed),
  so the terms \<open>p\<close> and \<open>i\<close>, the sum and the two clamps are as the spec words them.
\<close>

lemma runControl_matches_spec_on_whole_seconds:
  assumes "1000 dvd (time_now - time_last_m c)"
    and "\<not> flt (pos_max_output_m c) (neg_max_output_m c)"
    and "\<not> flt (integral_error_limit_m c) (fneg (integral_error_limit_m c))"
  shows "pid_output (fst (runControl c time_now target measured)) =
           spec_pid_output c time_now target measured"
  using assms
  by (simp add: runControl_pid_output unclipped_output_def accumulated_error_def
        spec_pid_output_def clip_eq_spec_clamp float_of_int_def sdiv_1000_dvd Let_def
        fmul_commute)

text \<open>
  C4. The claim is that the output is the clamped sum \<open>p + i + d\<close> with \<open>d = dt * kd\<close>
  and \<open>dt\<close> the elapsed time in seconds. The code divides the millisecond count by 1000
  as integers, so the fraction of a second is lost before the multiplication. A
  controller with \<open>kp = 0\<close>, \<open>ki = 0\<close>, \<open>kd = 1\<close> that is called half a second after its
  construction returns 0, where the formula of the claim gives 0.5.
\<close>

theorem runControl_truncates_elapsed_time:
  "pid_output (fst (runControl (PidController_ctor \<lparr>kp = Fin 0, ki = Fin 0, kd = Fin 1\<rparr> 0)
                      500 (Fin 0) (Fin 0))) = Fin 0
   \<and> spec_pid_output (PidController_ctor \<lparr>kp = Fin 0, ki = Fin 0, kd = Fin 1\<rparr> 0)
        500 (Fin 0) (Fin 0) = Fin (1/2)"
  by (simp add: runControl_def spec_pid_output_def spec_clamp_def PidController_ctor_def
        Let_def fsub_def fgt_def float_of_int_def FLT_MAX_def)



section \<open>The output stays within its limits\<close>






section \<open>The integral accumulator stays within its limit\<close>

text \<open>Both constructors leave the accumulator at 0 and the limit at the largest float.\<close>

lemma constructed_accumulator:
  "integral_error_m (PidController_ctor gains time_now) = Fin 0"
  "integral_error_limit_m (PidController_ctor gains time_now) = Fin FLT_MAX"
  "integral_error_m (PidController_ctor_limits gains limits time_now) = Fin 0"
  "integral_error_limit_m (PidController_ctor_limits gains limits time_now) = Fin FLT_MAX"
  "integral_error_m (setIntegralErrorLimit c error_limit) = integral_error_m c"
  "0 \<le> FLT_MAX"
  by (simp_all add: PidController_ctor_def PidController_ctor_limits_def
        setIntegralErrorLimit_def FLT_MAX_def)




section \<open>The acceleration limit\<close>






section \<open>Equal wheel speeds\<close>




end
